theory Spec2Isabelle
  imports Complex_Main
begin

section \<open>Data model (database\_models.py)\<close>

text \<open>
  The ORM classes become records. Primary keys and the path parameters that are compared
  with them are Python integers (\<open>int\<close>); a timestamp is the number of clock units
  since the epoch (\<open>nat\<close>). Field names carry the table as a prefix where two tables
  share a column name.
\<close>

record conversation =
  conv_id :: int
  conv_user_id :: int
  session_id :: string
  title :: "string option"
  conv_created_at :: nat
  conv_updated_at :: nat

record message =
  msg_id :: int
  conversation_id :: int
  role :: string
  content :: string
  msg_keywords :: "string list option"
  msg_created_at :: nat

record goal =
  goal_id :: int
  goal_user_id :: int
  goal_title :: string
  description :: "string option"
  target_date :: "nat option"
  status :: string
  streak_count :: int
  goal_created_at :: nat
  goal_updated_at :: nat

record goal_check_in =
  checkin_id :: int
  checkin_goal_id :: int
  check_in_date :: nat
  progress_note :: "string option"
  completed :: bool

text \<open>
  The tables are lists of rows in insertion order; each table has the counter of its
  serial primary key.
\<close>

record database =
  conversations :: "conversation list"
  messages :: "message list"
  goals :: "goal list"
  goal_check_ins :: "goal_check_in list"
  next_conversation_id :: int
  next_message_id :: int
  next_goal_id :: int
  next_checkin_id :: int

section \<open>Requests, responses and errors (schemasx.py, fastapi, httpx)\<close>

record chat_request =
  req_message :: string
  req_max_tokens :: "int option"
  req_temperature :: "rat option"

record inference_request =
  inf_messages :: "(string \<times> string) list"
  inf_max_tokens :: int
  inf_temperature :: rat

record message_response =
  mr_id :: int
  mr_role :: string
  mr_content :: string
  mr_created_at :: nat

record chat_response =
  cr_session_id :: string
  cr_user_message :: message_response
  cr_assistant_message :: message_response
  cr_usage :: "(string \<times> int) list"

record conversation_response =
  resp_id :: int
  resp_session_id :: string
  resp_title :: "string option"
  resp_created_at :: nat
  resp_updated_at :: nat
  resp_message_count :: nat

text \<open>
  Every raise of the source is a value: \<open>HTTPException status_code detail\<close> is what a
  route raises on purpose; \<open>AttributeError module name\<close> is Python's error for a name a
  module does not define; \<open>IntegrityError constraint\<close> is the store refusing a row that
  breaks a constraint declared in database\_models.py.
\<close>

datatype error =
    HTTPException nat string
  | AttributeError string string
  | IntegrityError string

text \<open>What the buffered call to the inference service can come back with.\<close>

datatype body =
    Undecodable string
  | Json string "(string \<times> int) list"

datatype inference_outcome =
    TimeoutException
  | RequestError string
  | OtherException string
  | Response nat body

text \<open>
  What the streamed call delivers: the text chunks of \<open>aiter_text\<close> in arrival order,
  and then either the close of the transport or an exception (whose \<open>str\<close> is kept).
\<close>

datatype stream_end = StreamClosed | StreamRaised string

section \<open>The world a request runs in\<close>

text \<open>
  \<open>store\<close> is the database as the request's session sees it. Every \<open>db.commit()\<close>
  makes the store visible to all other sessions: \<open>committed\<close> lists these snapshots,
  oldest first, and a concurrent reader sees one of them. \<open>clock k\<close> is the \<open>k\<close>-th
  reading of \<open>datetime.now(timezone.utc)\<close> and \<open>reads\<close> counts the readings taken.
  \<open>posted\<close> lists the request bodies sent to the inference service.
\<close>

record world =
  store :: database
  committed :: "database list"
  clock :: "nat \<Rightarrow> nat"
  reads :: nat
  posted :: "inference_request list"

definition now :: "world \<Rightarrow> nat" where
  "now w = clock w (reads w)"

definition tick :: "world \<Rightarrow> world" where
  "tick w = w\<lparr>reads := Suc (reads w)\<rparr>"

definition commit :: "world \<Rightarrow> world" where
  "commit w = w\<lparr>committed := committed w @ [store w]\<rparr>"

text \<open>\<open>query.first()\<close> is \<open>find\<close>; an attribute write or a delete touches that one row.\<close>

fun update_first :: "('a \<Rightarrow> bool) \<Rightarrow> ('a \<Rightarrow> 'a) \<Rightarrow> 'a list \<Rightarrow> 'a list" where
  "update_first P f [] = []"
| "update_first P f (x # xs) = (if P x then f x # xs else x # update_first P f xs)"

fun delete_first :: "('a \<Rightarrow> bool) \<Rightarrow> 'a list \<Rightarrow> 'a list" where
  "delete_first P [] = []"
| "delete_first P (x # xs) = (if P x then xs else x # delete_first P xs)"

section \<open>crud.py: conversations and messages\<close>

text \<open>
  \<open>uuid_hex\<close> stands for \<open>uuid.uuid4().hex\<close>. The two column defaults
  \<open>created_at\<close> and \<open>updated_at\<close> each read the clock when the row is inserted; the
  column \<open>session_id\<close> is declared unique, so a second row with the same handle is
  refused at the commit.
\<close>

definition create_conversation ::
  "world \<Rightarrow> int \<Rightarrow> string option \<Rightarrow> string \<Rightarrow> error + (conversation \<times> world)" where
  "create_conversation w user_id ttl uuid_hex =
     (let sid = ''conv-'' @ uuid_hex;
          db = store w;
          db_conversation = \<lparr>conv_id = next_conversation_id db, conv_user_id = user_id,
             session_id = sid, title = ttl,
             conv_created_at = now w, conv_updated_at = now (tick w)\<rparr>;
          w1 = tick (tick w)
      in if find (\<lambda>c. session_id c = sid) (conversations db) \<noteq> None
         then Inl (IntegrityError ''conversations.session_id'')
         else Inr (db_conversation,
            commit (w1\<lparr>store := db\<lparr>conversations := conversations db @ [db_conversation],
               next_conversation_id := next_conversation_id db + 1\<rparr>\<rparr>)))"

definition get_conversation_by_session_id :: "database \<Rightarrow> string \<Rightarrow> conversation option" where
  "get_conversation_by_session_id db sid = find (\<lambda>c. session_id c = sid) (conversations db)"

text \<open>
  Deleting a conversation deletes its messages with it (the relationship's
  \<open>cascade="all, delete-orphan"\<close>).
\<close>

definition delete_conversation :: "world \<Rightarrow> string \<Rightarrow> bool \<times> world" where
  "delete_conversation w sid =
     (case get_conversation_by_session_id (store w) sid of
        None \<Rightarrow> (False, w)
      | Some c \<Rightarrow>
          (True, commit (w\<lparr>store := (store w)\<lparr>
               conversations := delete_first (\<lambda>x. conv_id x = conv_id c) (conversations (store w)),
               messages := filter (\<lambda>m. conversation_id m \<noteq> conv_id c) (messages (store w))\<rparr>\<rparr>)))"

definition update_conversation_timestamp :: "world \<Rightarrow> int \<Rightarrow> world" where
  "update_conversation_timestamp w cid =
     (case find (\<lambda>c. conv_id c = cid) (conversations (store w)) of
        None \<Rightarrow> w
      | Some c \<Rightarrow>
          commit ((tick w)\<lparr>store := (store w)\<lparr>conversations :=
             update_first (\<lambda>x. conv_id x = cid) (\<lambda>x. x\<lparr>conv_updated_at := now w\<rparr>)
               (conversations (store w))\<rparr>\<rparr>))"

text \<open>
  \<open>create_message\<close> commits the new row, and only then calls
  \<open>update_conversation_timestamp\<close>, which commits a second time. The foreign key
  \<open>messages.conversation_id\<close> refuses a message whose conversation does not exist.
\<close>

definition create_message ::
  "world \<Rightarrow> int \<Rightarrow> string \<Rightarrow> string \<Rightarrow> string list option \<Rightarrow> error + (message \<times> world)" where
  "create_message w cid rl body kws =
     (let db = store w;
          db_message = \<lparr>msg_id = next_message_id db, conversation_id = cid, role = rl,
             content = body, msg_keywords = kws, msg_created_at = now w\<rparr>
      in if find (\<lambda>c. conv_id c = cid) (conversations db) = None
         then Inl (IntegrityError ''messages.conversation_id'')
         else
           let w1 = commit ((tick w)\<lparr>store := db\<lparr>messages := messages db @ [db_message],
                  next_message_id := next_message_id db + 1\<rparr>\<rparr>)
           in Inr (db_message, update_conversation_timestamp w1 cid))"

text \<open>
  \<open>ORDER BY created_at\<close>. The order of rows with equal timestamps is the storage
  engine's, which is not part of the sources; the specification requires of the store that
  such rows keep their insertion order, and the stable \<open>sort_key\<close> does that.
\<close>

definition get_conversation_messages :: "database \<Rightarrow> int \<Rightarrow> message list" where
  "get_conversation_messages db cid =
     sort_key msg_created_at (filter (\<lambda>m. conversation_id m = cid) (messages db))"

section \<open>routes/conversations.py\<close>

text \<open>
  The identity gate (module \<open>auth\<close>) is not part of the sources: a route takes the
  authenticated user's id, \<open>current_user.id\<close>, as an argument.
\<close>

definition SYSTEM_PROMPT :: string where
  "SYSTEM_PROMPT = CHR 0x0A # ''You are Alari, a compassionate, helpful personal growth coach and motivational companion for accomplishing goals. Always answer in a personal, interactive way. Always refer to yourself as Alari. Be warm, encouraging, and non-judgmental. Knowledge cutoff: October 2025. If unsure, ask clarifying questions.'' @ [CHR 0x0A]"

text \<open>
  An ORM object read after a later commit shows the row as it is then: the response of
  \<open>create_conversation\<close> reads \<open>conversation.updated_at\<close> after the system message
  has touched it.
\<close>

definition refreshed :: "database \<Rightarrow> conversation \<Rightarrow> conversation" where
  "refreshed db c = (case find (\<lambda>x. conv_id x = conv_id c) (conversations db) of
      None \<Rightarrow> c | Some c' \<Rightarrow> c')"

definition conversation_response_of :: "conversation \<Rightarrow> nat \<Rightarrow> conversation_response" where
  "conversation_response_of c n = \<lparr>resp_id = conv_id c, resp_session_id = session_id c,
     resp_title = title c, resp_created_at = conv_created_at c,
     resp_updated_at = conv_updated_at c, resp_message_count = n\<rparr>"

definition create_conversation_route ::
  "world \<Rightarrow> string option \<Rightarrow> int \<Rightarrow> string \<Rightarrow> (error + conversation_response) \<times> world" where
  "create_conversation_route w conv_title current_user_id uuid_hex =
     (case create_conversation w current_user_id conv_title uuid_hex of
        Inl e \<Rightarrow> (Inl e, w)
      | Inr (conversation, w1) \<Rightarrow>
          (case create_message w1 (conv_id conversation) ''system'' SYSTEM_PROMPT None of
             Inl e \<Rightarrow> (Inl e, w1)
           | Inr (system_msg, w2) \<Rightarrow>
               (Inr (conversation_response_of (refreshed (store w2) conversation) 1), w2)))"

definition get_conversation :: "database \<Rightarrow> string \<Rightarrow> int \<Rightarrow> error + conversation_response" where
  "get_conversation db sid current_user_id =
     (case get_conversation_by_session_id db sid of
        None \<Rightarrow> Inl (HTTPException 404 ''Conversation not found'')
      | Some conversation \<Rightarrow>
          if conv_user_id conversation \<noteq> current_user_id
          then Inl (HTTPException 404 ''Conversation not found'')
          else Inr (conversation_response_of conversation
                 (length (get_conversation_messages db (conv_id conversation)))))"

definition message_response_of :: "message \<Rightarrow> message_response" where
  "message_response_of m = \<lparr>mr_id = msg_id m, mr_role = role m, mr_content = content m,
     mr_created_at = msg_created_at m\<rparr>"

definition get_messages :: "database \<Rightarrow> string \<Rightarrow> int \<Rightarrow> error + message_response list" where
  "get_messages db sid current_user_id =
     (case get_conversation_by_session_id db sid of
        None \<Rightarrow> Inl (HTTPException 404 ''Conversation not found'')
      | Some conversation \<Rightarrow>
          if conv_user_id conversation \<noteq> current_user_id
          then Inl (HTTPException 404 ''Conversation not found'')
          else Inr (map message_response_of
                 (get_conversation_messages db (conv_id conversation))))"

definition delete_conversation_route :: "world \<Rightarrow> string \<Rightarrow> int \<Rightarrow> (error + unit) \<times> world" where
  "delete_conversation_route w sid current_user_id =
     (case get_conversation_by_session_id (store w) sid of
        None \<Rightarrow> (Inl (HTTPException 404 ''Conversation not found''), w)
      | Some conversation \<Rightarrow>
          if conv_user_id conversation \<noteq> current_user_id
          then (Inl (HTTPException 404 ''Conversation not found''), w)
          else (Inr (), snd (delete_conversation w sid)))"

section \<open>routes/chat.py\<close>

text \<open>\<open>str\<close> of a status code, and of an \<open>HTTPException\<close> (\<open>"{status_code}: {detail}"\<close>).\<close>

function str_nat :: "nat \<Rightarrow> string" where
  "str_nat n = (if n < 10 then [''0123456789'' ! n]
                else str_nat (n div 10) @ [''0123456789'' ! (n mod 10)])"
  by pat_completeness auto
termination
  by (relation "measure id") auto

declare str_nat.simps [simp del]

definition str_http_exception :: "nat \<Rightarrow> string \<Rightarrow> string" where
  "str_http_exception status_code detail = str_nat status_code @ '': '' @ detail"

text \<open>\<open>request.max_tokens or 512\<close>, \<open>request.temperature or 0.7\<close>: \<open>None\<close> and zero are falsy.\<close>

definition inference_request_body :: "(string \<times> string) list \<Rightarrow> chat_request \<Rightarrow> inference_request" where
  "inference_request_body message_history request =
     \<lparr>inf_messages = message_history,
      inf_max_tokens = (case req_max_tokens request of
          None \<Rightarrow> 512 | Some n \<Rightarrow> if n = 0 then 512 else n),
      inf_temperature = (case req_temperature request of
          None \<Rightarrow> 7 / 10 | Some t \<Rightarrow> if t = 0 then 7 / 10 else t)\<rparr>"

definition post :: "world \<Rightarrow> inference_request \<Rightarrow> world" where
  "post w b = w\<lparr>posted := posted w @ [b]\<rparr>"

text \<open>
  The buffered turn. \<open>outcome\<close> is what the inference service answers to the request
  posted in step 3. The \<open>HTTPException\<close> raised for a status other than 200 is raised
  inside the \<open>try\<close> block, so the last handler (\<open>except Exception\<close>) catches it and
  raises the 500 in its place. Step 4 calls \<open>crud.create_message_pair\<close>: crud.py defines
  no such name (its message functions are \<open>create_message\<close> and
  \<open>get_conversation_messages\<close>), so evaluating the attribute raises
  \<open>AttributeError\<close> before anything is written, and step 5 is never reached.
\<close>

definition send_message ::
  "world \<Rightarrow> string \<Rightarrow> chat_request \<Rightarrow> int \<Rightarrow> inference_outcome \<Rightarrow> (error + chat_response) \<times> world" where
  "send_message w sid request current_user_id outcome =
     (case get_conversation_by_session_id (store w) sid of
        None \<Rightarrow> (Inl (HTTPException 404 ''Conversation not found''), w)
      | Some conversation \<Rightarrow>
          if conv_user_id conversation \<noteq> current_user_id
          then (Inl (HTTPException 403 ''Access denied''), w)
          else
            let existing_messages = get_conversation_messages (store w) (conv_id conversation);
                message_history = map (\<lambda>msg. (role msg, content msg)) existing_messages
                   @ [(''user'', req_message request)];
                w1 = post w (inference_request_body message_history request)
            in (case outcome of
                  TimeoutException \<Rightarrow> (Inl (HTTPException 504 ''Inference service timeout''), w1)
                | RequestError e \<Rightarrow>
                    (Inl (HTTPException 503 (''Cannot connect to inference service: '' @ e)), w1)
                | OtherException e \<Rightarrow>
                    (Inl (HTTPException 500 (''Error during inference: '' @ e)), w1)
                | Response status_code b \<Rightarrow>
                    if status_code \<noteq> 200
                    then (Inl (HTTPException 500 (''Error during inference: '' @
                            str_http_exception 503
                              (''Inference service error: '' @ str_nat status_code))), w1)
                    else (case b of
                            Undecodable e \<Rightarrow>
                              (Inl (HTTPException 500 (''Error during inference: '' @ e)), w1)
                          | Json ai_message_content usage \<Rightarrow>
                              (Inl (AttributeError ''crud'' ''create_message_pair''), w1))))"

text \<open>
  The streaming turn. The loop of the generator adds each chunk to \<open>full_response\<close> and
  yields it; the second component collects what has been yielded to the caller.
\<close>

fun forward_chunks :: "string list \<Rightarrow> string \<Rightarrow> string list \<Rightarrow> string \<times> string list" where
  "forward_chunks [] full_response yielded = (full_response, yielded)"
| "forward_chunks (chunk # rest) full_response yielded =
     forward_chunks rest (full_response @ chunk) (yielded @ [chunk])"

text \<open>
  \<open>stream_generator\<close> returns what it yielded and the exception it ended with, if any:
  an exception of the stream is caught and answered with the error marker; an error of
  the final \<open>create_message\<close> is outside the \<open>try\<close> block and escapes.
\<close>

definition stream_generator ::
  "world \<Rightarrow> conversation \<Rightarrow> (string \<times> string) list \<Rightarrow> chat_request \<Rightarrow>
   string list \<times> stream_end \<Rightarrow> (string list \<times> error option) \<times> world" where
  "stream_generator w conversation message_history request upstream =
     (let w1 = post w (inference_request_body message_history request);
          (full_response, yielded) = forward_chunks (fst upstream) [] []
      in (case snd upstream of
            StreamRaised e \<Rightarrow>
              ((yielded @ [CHR 0x0A # ''[ERROR: '' @ e @ '']''], None), w1)
          | StreamClosed \<Rightarrow>
              if full_response \<noteq> []
              then (case create_message w1 (conv_id conversation) ''assistant'' full_response None of
                      Inl err \<Rightarrow> ((yielded, Some err), w1)
                    | Inr (assistant_msg, w2) \<Rightarrow> ((yielded, None), w2))
              else ((yielded, None), w1)))"

definition send_message_streaming ::
  "world \<Rightarrow> string \<Rightarrow> chat_request \<Rightarrow> int \<Rightarrow> string list \<times> stream_end \<Rightarrow>
   (error + string list \<times> error option) \<times> world" where
  "send_message_streaming w sid request current_user_id upstream =
     (case get_conversation_by_session_id (store w) sid of
        None \<Rightarrow> (Inl (HTTPException 404 ''Conversation not found''), w)
      | Some conversation \<Rightarrow>
          if conv_user_id conversation \<noteq> current_user_id
          then (Inl (HTTPException 404 ''Conversation not found''), w)
          else (case create_message w (conv_id conversation) ''user'' (req_message request) None of
                  Inl e \<Rightarrow> (Inl e, w)
                | Inr (user_msg, w1) \<Rightarrow>
                    let all_messages = get_conversation_messages (store w1) (conv_id conversation);
                        message_history = map (\<lambda>msg. (role msg, content msg)) all_messages;
                        (out, w2) = stream_generator w1 conversation message_history request upstream
                    in (Inr out, w2)))"

section \<open>crud.py: goals and check-ins\<close>

definition get_goal_by_id :: "database \<Rightarrow> int \<Rightarrow> goal option" where
  "get_goal_by_id db gid = find (\<lambda>g. goal_id g = gid) (goals db)"

text \<open>
  \<open>create_goal_checkin\<close> commits the check-in; when \<open>completed\<close> is true it then reads
  the goal, adds one to \<open>streak_count\<close>, sets \<open>updated_at\<close> and commits again. The
  foreign key \<open>goal_check_ins.goal_id\<close> refuses a check-in whose goal does not exist.
\<close>

definition create_goal_checkin ::
  "world \<Rightarrow> int \<Rightarrow> string option \<Rightarrow> bool \<Rightarrow> error + (goal_check_in \<times> world)" where
  "create_goal_checkin w gid note done =
     (let db = store w;
          db_checkin = \<lparr>checkin_id = next_checkin_id db, checkin_goal_id = gid,
             check_in_date = now w, progress_note = note, completed = done\<rparr>
      in if get_goal_by_id db gid = None
         then Inl (IntegrityError ''goal_check_ins.goal_id'')
         else
           let w1 = commit ((tick w)\<lparr>store := db\<lparr>goal_check_ins := goal_check_ins db @ [db_checkin],
                  next_checkin_id := next_checkin_id db + 1\<rparr>\<rparr>)
           in if done
              then (case get_goal_by_id (store w1) gid of
                      None \<Rightarrow> Inr (db_checkin, w1)
                    | Some g \<Rightarrow>
                        Inr (db_checkin,
                          commit ((tick w1)\<lparr>store := (store w1)\<lparr>goals :=
                            update_first (\<lambda>x. goal_id x = gid)
                              (\<lambda>x. x\<lparr>streak_count := streak_count x + 1, goal_updated_at := now w1\<rparr>)
                              (goals (store w1))\<rparr>\<rparr>)))
              else Inr (db_checkin, w1))"

definition get_checkin_by_id :: "database \<Rightarrow> int \<Rightarrow> goal_check_in option" where
  "get_checkin_by_id db cid = find (\<lambda>c. checkin_id c = cid) (goal_check_ins db)"

definition update_checkin ::
  "world \<Rightarrow> int \<Rightarrow> string option \<Rightarrow> bool option \<Rightarrow> goal_check_in option \<times> world" where
  "update_checkin w cid note done =
     (case get_checkin_by_id (store w) cid of
        None \<Rightarrow> (None, w)
      | Some checkin \<Rightarrow>
          let c1 = (case note of None \<Rightarrow> checkin | Some n \<Rightarrow> checkin\<lparr>progress_note := Some n\<rparr>);
              c2 = (case done of None \<Rightarrow> c1 | Some b \<Rightarrow> c1\<lparr>completed := b\<rparr>)
          in (Some c2, commit (w\<lparr>store := (store w)\<lparr>goal_check_ins :=
                update_first (\<lambda>x. checkin_id x = cid) (\<lambda>x. c2) (goal_check_ins (store w))\<rparr>\<rparr>)))"

definition delete_checkin :: "world \<Rightarrow> int \<Rightarrow> bool \<times> world" where
  "delete_checkin w cid =
     (case get_checkin_by_id (store w) cid of
        None \<Rightarrow> (False, w)
      | Some checkin \<Rightarrow>
          (True, commit (w\<lparr>store := (store w)\<lparr>goal_check_ins :=
             delete_first (\<lambda>x. checkin_id x = cid) (goal_check_ins (store w))\<rparr>\<rparr>)))"

section \<open>routes/goals.py: check-ins\<close>

definition create_checkin ::
  "world \<Rightarrow> int \<Rightarrow> string option \<Rightarrow> bool \<Rightarrow> int \<Rightarrow> (error + goal_check_in) \<times> world" where
  "create_checkin w gid note done current_user_id =
     (case get_goal_by_id (store w) gid of
        None \<Rightarrow> (Inl (HTTPException 404 ''Goal not found''), w)
      | Some g \<Rightarrow>
          if goal_user_id g \<noteq> current_user_id
          then (Inl (HTTPException 404 ''Goal not found''), w)
          else (case create_goal_checkin w gid note done of
                  Inl e \<Rightarrow> (Inl e, w)
                | Inr (checkin, w1) \<Rightarrow> (Inr checkin, w1)))"

definition update_checkin_route ::
  "world \<Rightarrow> int \<Rightarrow> int \<Rightarrow> string option \<Rightarrow> bool option \<Rightarrow> int \<Rightarrow> (error + goal_check_in) \<times> world" where
  "update_checkin_route w gid cid note done current_user_id =
     (case get_goal_by_id (store w) gid of
        None \<Rightarrow> (Inl (HTTPException 404 ''Goal not found''), w)
      | Some g \<Rightarrow>
          if goal_user_id g \<noteq> current_user_id
          then (Inl (HTTPException 404 ''Goal not found''), w)
          else (case update_checkin w cid note done of
                  (None, w1) \<Rightarrow> (Inl (HTTPException 404 ''Check-in not found''), w1)
                | (Some checkin, w1) \<Rightarrow> (Inr checkin, w1)))"

definition delete_checkin_route ::
  "world \<Rightarrow> int \<Rightarrow> int \<Rightarrow> int \<Rightarrow> (error + unit) \<times> world" where
  "delete_checkin_route w gid cid current_user_id =
     (case get_goal_by_id (store w) gid of
        None \<Rightarrow> (Inl (HTTPException 404 ''Goal not found''), w)
      | Some g \<Rightarrow>
          if goal_user_id g \<noteq> current_user_id
          then (Inl (HTTPException 404 ''Goal not found''), w)
          else (case delete_checkin w cid of
                  (False, w1) \<Rightarrow> (Inl (HTTPException 404 ''Check-in not found''), w1)
                | (True, w1) \<Rightarrow> (Inr (), w1)))"

section \<open>Vocabulary of the properties\<close>

text \<open>The inference call of a buffered turn fails: a timeout, a connection error, any
  other exception, an answer whose status is not 200, or an answer that cannot be decoded.\<close>

fun inference_fails :: "inference_outcome \<Rightarrow> bool" where
  "inference_fails TimeoutException = True"
| "inference_fails (RequestError e) = True"
| "inference_fails (OtherException e) = True"
| "inference_fails (Response status_code (Undecodable e)) = True"
| "inference_fails (Response status_code (Json r usage)) = (status_code \<noteq> 200)"

text \<open>No message of the conversation is stamped later than the clock reads now.\<close>

definition history_in_past :: "world \<Rightarrow> int \<Rightarrow> bool" where
  "history_in_past w cid =
     list_all (\<lambda>m. msg_created_at m \<le> now w) (get_conversation_messages (store w) cid)"

text \<open>The guard of a conversation route turns the request away: the handle names no
  conversation, or the conversation belongs to another user.\<close>

fun denied :: "conversation option \<Rightarrow> int \<Rightarrow> bool" where
  "denied None uid = True"
| "denied (Some c) uid = (conv_user_id c \<noteq> uid)"

section \<open>Concrete states\<close>

text \<open>
  User 1 owns the conversation \<open>conv-a1\<close>, which holds its system prompt, and a goal
  with a streak of two and one check-in that is not completed. The clock reads 100, 101,
  102 and so on.
\<close>

definition example_clock :: "nat \<Rightarrow> nat" where
  "example_clock k = 100 + k"

definition example_db :: database where
  "example_db = \<lparr>
     conversations = [\<lparr>conv_id = 1, conv_user_id = 1, session_id = ''conv-a1'', title = None,
        conv_created_at = 5, conv_updated_at = 7\<rparr>],
     messages = [\<lparr>msg_id = 1, conversation_id = 1, role = ''system'', content = SYSTEM_PROMPT,
        msg_keywords = None, msg_created_at = 6\<rparr>],
     goals = [\<lparr>goal_id = 1, goal_user_id = 1, goal_title = ''Run'', description = None,
        target_date = None, status = ''active'', streak_count = 2,
        goal_created_at = 8, goal_updated_at = 8\<rparr>],
     goal_check_ins = [\<lparr>checkin_id = 1, checkin_goal_id = 1, check_in_date = 9,
        progress_note = None, completed = False\<rparr>],
     next_conversation_id = 2, next_message_id = 2, next_goal_id = 2, next_checkin_id = 2\<rparr>"

definition example_world :: world where
  "example_world = \<lparr>store = example_db, committed = [example_db], clock = example_clock,
     reads = 0, posted = []\<rparr>"

definition empty_db :: database where
  "empty_db = \<lparr>conversations = [], messages = [], goals = [], goal_check_ins = [],
     next_conversation_id = 1, next_message_id = 1, next_goal_id = 1, next_checkin_id = 1\<rparr>"

definition empty_world :: world where
  "empty_world = \<lparr>store = empty_db, committed = [empty_db], clock = example_clock,
     reads = 0, posted = []\<rparr>"

definition hi_request :: chat_request where
  "hi_request = \<lparr>req_message = ''Hi'', req_max_tokens = None, req_temperature = None\<rparr>"

section \<open>Lemmas about the store\<close>

lemma forward_chunks_eq:
  "forward_chunks chunks acc ys = (acc @ concat chunks, ys @ chunks)"
  by (induction chunks arbitrary: acc ys) simp_all

lemma insort_key_last:
  "\<forall>x\<in>set xs. f x \<le> f y \<Longrightarrow> f z \<le> f y \<Longrightarrow> insort_key f z (xs @ [y]) = insort_key f z xs @ [y]"
  by (induction xs) auto

lemma sort_key_snoc:
  "\<forall>x\<in>set xs. f x \<le> f y \<Longrightarrow> sort_key f (xs @ [y]) = sort_key f xs @ [y]"
proof (induction xs)
  case Nil
  then show ?case by simp
next
  case (Cons a xs)
  then have "sort_key f (xs @ [y]) = sort_key f xs @ [y]" by simp
  moreover have "\<forall>x\<in>set (sort_key f xs). f x \<le> f y" using Cons.prems by simp
  ultimately show ?case using Cons.prems by (simp add: insort_key_last)
qed

lemma find_update_first:
  "find P xs = Some x \<Longrightarrow> P (f x) \<Longrightarrow> find P (update_first P f xs) = Some (f x)"
  by (induction xs) (auto split: if_splits)

lemma find_holds: "find P xs = Some x \<Longrightarrow> P x"
  by (induction xs) (auto split: if_splits)

lemma find_other_key:
  "find P xs = Some x \<Longrightarrow> Q x \<Longrightarrow> \<exists>y. find Q xs = Some y"
  by (induction xs) (auto split: if_splits)

text \<open>What one call of \<open>create_message\<close> on an existing conversation does to the world.\<close>

lemma create_message_result:
  assumes "find (\<lambda>c. conv_id c = cid) (conversations (store w)) = Some c"
  shows "\<exists>m w' snap. create_message w cid rl body kws = Inr (m, w')
      \<and> m = \<lparr>msg_id = next_message_id (store w), conversation_id = cid, role = rl,
             content = body, msg_keywords = kws, msg_created_at = clock w (reads w)\<rparr>
      \<and> committed w' = committed w @ [snap, store w']
      \<and> messages snap = messages (store w) @ [m]
      \<and> conversations snap = conversations (store w)
      \<and> messages (store w') = messages (store w) @ [m]
      \<and> conversations (store w') = update_first (\<lambda>x. conv_id x = cid)
            (\<lambda>x. x\<lparr>conv_updated_at := clock w (Suc (reads w))\<rparr>) (conversations (store w))
      \<and> goals (store w') = goals (store w)
      \<and> goal_check_ins (store w') = goal_check_ins (store w)
      \<and> clock w' = clock w \<and> reads w' = Suc (Suc (reads w)) \<and> posted w' = posted w"
  using assms
  by (simp add: create_message_def update_conversation_timestamp_def Let_def commit_def
        tick_def now_def)

section \<open>Appending a message and touching the conversation\<close>

text \<open>
  C8, as amended. For every call of \<open>create_message\<close> on an existing conversation, the
  call returns the new message, and when it has returned the conversation's
  \<open>updated_at\<close> is the clock reading taken after the message was committed. The insert and
  the touch are two commits, not one unit of work: the call adds exactly two snapshots to
  the committed history, and the first of them holds the new message beside the
  conversation rows as they were, \<open>updated_at\<close> not yet touched.
\<close>

theorem create_message_touch_second_commit:
  assumes "find (\<lambda>x. conv_id x = cid) (conversations (store w)) = Some c"
  shows "\<exists>m w' snap. create_message w cid rl body kws = Inr (m, w')
      \<and> conversation_id m = cid \<and> role m = rl \<and> content m = body
      \<and> committed w' = committed w @ [snap, store w']
      \<and> messages snap = messages (store w) @ [m]
      \<and> conversations snap = conversations (store w)
      \<and> messages (store w') = messages (store w) @ [m]
      \<and> find (\<lambda>x. conv_id x = cid) (conversations (store w'))
           = Some (c\<lparr>conv_updated_at := clock w (Suc (reads w))\<rparr>)"
proof -
  obtain m w' snap where r: "create_message w cid rl body kws = Inr (m, w')"
      "m = \<lparr>msg_id = next_message_id (store w), conversation_id = cid, role = rl,
             content = body, msg_keywords = kws, msg_created_at = clock w (reads w)\<rparr>"
      "committed w' = committed w @ [snap, store w']"
      "messages snap = messages (store w) @ [m]"
      "conversations snap = conversations (store w)"
      "messages (store w') = messages (store w) @ [m]"
      "conversations (store w') = update_first (\<lambda>x. conv_id x = cid)
            (\<lambda>x. x\<lparr>conv_updated_at := clock w (Suc (reads w))\<rparr>) (conversations (store w))"
    using create_message_result [OF assms, of rl body kws] by blast
  have "conv_id c = cid"
    using assms by (rule find_holds)
  then have "find (\<lambda>x. conv_id x = cid) (conversations (store w'))
           = Some (c\<lparr>conv_updated_at := clock w (Suc (reads w))\<rparr>)"
    using assms r(7) by (simp add: find_update_first)
  moreover have "conversation_id m = cid \<and> role m = rl \<and> content m = body"
    using r(2) by simp
  ultimately show ?thesis using r by blast
qed

text \<open>
  The theorem at the example: the user message \<open>Hi\<close> is appended to \<open>conv-a1\<close> when the
  clock reads 100 and then 101. The snapshot between the two commits holds the message
  with \<open>updated_at\<close> still at 7; the final store holds it with \<open>updated_at\<close> at 101.
\<close>

theorem create_message_touch_second_commit_witness:
  "\<exists>m w' snap. create_message example_world 1 ''user'' ''Hi'' None = Inr (m, w')
      \<and> committed w' = [example_db, snap, store w']
      \<and> map content (messages snap) = [SYSTEM_PROMPT, ''Hi'']
      \<and> map conv_updated_at (conversations snap) = [7]
      \<and> map content (messages (store w')) = [SYSTEM_PROMPT, ''Hi'']
      \<and> map_option conv_updated_at (find (\<lambda>x. conv_id x = 1) (conversations (store w')))
           = Some 101"
proof -
  have h: "find (\<lambda>x. conv_id x = 1) (conversations (store example_world))
      = Some \<lparr>conv_id = 1, conv_user_id = 1, session_id = ''conv-a1'', title = None,
        conv_created_at = 5, conv_updated_at = 7\<rparr>"
    by (simp add: example_world_def example_db_def)
  obtain m w' snap where r: "create_message example_world 1 ''user'' ''Hi'' None = Inr (m, w')"
      "content m = ''Hi''"
      "committed w' = committed example_world @ [snap, store w']"
      "messages snap = messages (store example_world) @ [m]"
      "conversations snap = conversations (store example_world)"
      "messages (store w') = messages (store example_world) @ [m]"
      "find (\<lambda>x. conv_id x = 1) (conversations (store w'))
           = Some (\<lparr>conv_id = 1, conv_user_id = 1, session_id = ''conv-a1'', title = None,
        conv_created_at = 5, conv_updated_at = 7\<rparr>\<lparr>conv_updated_at :=
             clock example_world (Suc (reads example_world))\<rparr>)"
    using create_message_touch_second_commit [OF h, of "''user''" "''Hi''" None] by blast
  have "committed w' = [example_db, snap, store w']"
    using r(3) by (simp add: example_world_def)
  moreover have "map content (messages snap) = [SYSTEM_PROMPT, ''Hi'']"
    using r(2,4) by (simp add: example_world_def example_db_def)
  moreover have "map conv_updated_at (conversations snap) = [7]"
    using r(5) by (simp add: example_world_def example_db_def)
  moreover have "map content (messages (store w')) = [SYSTEM_PROMPT, ''Hi'']"
    using r(2,6) by (simp add: example_world_def example_db_def)
  moreover have "map_option conv_updated_at (find (\<lambda>x. conv_id x = 1) (conversations (store w')))
           = Some 101"
    using r(7) by (simp add: example_world_def example_clock_def)
  ultimately show ?thesis using r(1)
    by (intro exI [of _ m] exI [of _ w'] exI [of _ snap]) simp
qed

text \<open>
  The claim as first stated fails at the example. Before the call, \<open>GET /conversations/conv-a1\<close>
  answers the owner with one message and \<open>updated_at\<close> 7. On the snapshot the call commits
  first, the same request answers with two messages, so the new message is visible, and
  with \<open>updated_at\<close> still 7.
\<close>

theorem create_message_stale_snapshot_counterexample:
  "get_conversation (committed example_world ! 0) ''conv-a1'' 1
     = Inr \<lparr>resp_id = 1, resp_session_id = ''conv-a1'', resp_title = None,
         resp_created_at = 5, resp_updated_at = 7, resp_message_count = 1\<rparr>
   \<and> get_conversation
       (committed (snd (projr (create_message example_world 1 ''user'' ''Hi'' None))) ! 1)
       ''conv-a1'' 1
     = Inr \<lparr>resp_id = 1, resp_session_id = ''conv-a1'', resp_title = None,
         resp_created_at = 5, resp_updated_at = 7, resp_message_count = 2\<rparr>"
  by (simp add: example_world_def example_db_def example_clock_def create_message_def
        update_conversation_timestamp_def Let_def commit_def tick_def now_def
        get_conversation_def get_conversation_by_session_id_def get_conversation_messages_def
        conversation_response_of_def)

section \<open>The streaming turn\<close>

text \<open>Appending one row of the conversation adds one entry to its listing; the entry comes
  last when no listed message is stamped later.\<close>

lemma listing_length:
  assumes "messages db' = messages db @ [m]" and "conversation_id m = cid"
  shows "length (get_conversation_messages db' cid) = Suc (length (get_conversation_messages db cid))"
  using assms by (simp add: get_conversation_messages_def)

lemma listing_append:
  assumes "messages db' = messages db @ [m]" and "conversation_id m = cid"
    and "list_all (\<lambda>x. msg_created_at x \<le> msg_created_at m) (get_conversation_messages db cid)"
  shows "get_conversation_messages db' cid = get_conversation_messages db cid @ [m]"
proof -
  let ?xs = "filter (\<lambda>x. conversation_id x = cid) (messages db)"
  have "\<forall>x\<in>set ?xs. msg_created_at x \<le> msg_created_at m"
    using assms(3) by (simp add: get_conversation_messages_def list_all_iff)
  then have "sort_key msg_created_at (?xs @ [m]) = sort_key msg_created_at ?xs @ [m]"
    by (rule sort_key_snoc)
  then show ?thesis
    using assms(1,2) by (simp add: get_conversation_messages_def)
qed

text \<open>The three ways the generator ends.\<close>

lemma stream_generator_raised:
  "stream_generator w c h req (chunks, StreamRaised e)
     = ((chunks @ [CHR 0x0A # ''[ERROR: '' @ e @ '']''], None), post w (inference_request_body h req))"
  by (simp add: stream_generator_def forward_chunks_eq Let_def)

lemma stream_generator_empty:
  "concat chunks = [] \<Longrightarrow> stream_generator w c h req (chunks, StreamClosed)
     = ((chunks, None), post w (inference_request_body h req))"
  by (simp add: stream_generator_def forward_chunks_eq Let_def)

lemma stream_generator_closed:
  "concat chunks \<noteq> [] \<Longrightarrow> stream_generator w c h req (chunks, StreamClosed)
     = (case create_message (post w (inference_request_body h req)) (conv_id c)
               ''assistant'' (concat chunks) None of
          Inl err \<Rightarrow> ((chunks, Some err), post w (inference_request_body h req))
        | Inr (a, w2) \<Rightarrow> ((chunks, None), w2))"
  by (simp add: stream_generator_def forward_chunks_eq Let_def)

lemma streaming_unfold:
  assumes "get_conversation_by_session_id (store w) sid = Some c" and "conv_user_id c = uid"
  shows "send_message_streaming w sid req uid up
     = (case create_message w (conv_id c) ''user'' (req_message req) None of
          Inl e \<Rightarrow> (Inl e, w)
        | Inr (u, w1) \<Rightarrow>
            (case stream_generator w1 c
                (map (\<lambda>msg. (role msg, content msg)) (get_conversation_messages (store w1) (conv_id c)))
                req up of
               (out, w2) \<Rightarrow> (Inr out, w2)))"
  using assms by (simp add: send_message_streaming_def Let_def split: sum.splits prod.splits)

lemma owned_conversation_has_id:
  assumes "get_conversation_by_session_id (store w) sid = Some c"
  shows "\<exists>y. find (\<lambda>x. conv_id x = conv_id c) (conversations (store w)) = Some y"
  using assms find_other_key [of "\<lambda>x. session_id x = sid" "conversations (store w)" c
      "\<lambda>x. conv_id x = conv_id c"]
  by (simp add: get_conversation_by_session_id_def)

text \<open>The user message of a streaming turn, and the world after it has been written.\<close>

lemma streaming_user_write:
  assumes "get_conversation_by_session_id (store w) sid = Some c"
  shows "\<exists>u w1 y. create_message w (conv_id c) ''user'' body None = Inr (u, w1)
      \<and> u = \<lparr>msg_id = next_message_id (store w), conversation_id = conv_id c, role = ''user'',
             content = body, msg_keywords = None, msg_created_at = clock w (reads w)\<rparr>
      \<and> messages (store w1) = messages (store w) @ [u]
      \<and> find (\<lambda>x. conv_id x = conv_id c) (conversations (store w1)) = Some y
      \<and> clock w1 = clock w \<and> reads w1 = Suc (Suc (reads w))"
proof -
  obtain y where y: "find (\<lambda>x. conv_id x = conv_id c) (conversations (store w)) = Some y"
    using owned_conversation_has_id [OF assms] by blast
  then have yc: "conv_id y = conv_id c" by (rule find_holds)
  obtain u w1 where r: "create_message w (conv_id c) ''user'' body None = Inr (u, w1)"
      "u = \<lparr>msg_id = next_message_id (store w), conversation_id = conv_id c, role = ''user'',
             content = body, msg_keywords = None, msg_created_at = clock w (reads w)\<rparr>"
      "messages (store w1) = messages (store w) @ [u]"
      "conversations (store w1) = update_first (\<lambda>x. conv_id x = conv_id c)
            (\<lambda>x. x\<lparr>conv_updated_at := clock w (Suc (reads w))\<rparr>) (conversations (store w))"
      "clock w1 = clock w" "reads w1 = Suc (Suc (reads w))"
    using create_message_result [OF y, of "''user''" body None] by blast
  have "find (\<lambda>x. conv_id x = conv_id c) (conversations (store w1))
      = Some (y\<lparr>conv_updated_at := clock w (Suc (reads w))\<rparr>)"
    using y yc r(4) by (simp add: find_update_first)
  with r show ?thesis by blast
qed

text \<open>
  C5. A streaming turn of the owner that receives at least one chunk, each chunk carrying
  text, and whose stream then closes normally forwards exactly the chunks received, in
  arrival order, and stores exactly two new rows: the user message with the request's
  text, then an assistant message whose content is the concatenation of the forwarded
  chunks. The listing of the conversation grows by two; where no earlier message is
  stamped later than the clock reads and the clock does not run backwards, the listing is
  the old listing followed by the user message and then the assistant message.
\<close>

theorem streaming_turn_persists_pair:
  assumes "get_conversation_by_session_id (store w) sid = Some c"
      and "conv_user_id c = uid"
      and "chunks \<noteq> []" and "\<forall>ch\<in>set chunks. ch \<noteq> []"
  shows "\<exists>u a w'. send_message_streaming w sid req uid (chunks, StreamClosed)
         = (Inr (chunks, None), w')
     \<and> messages (store w') = messages (store w) @ [u, a]
     \<and> conversation_id u = conv_id c \<and> role u = ''user'' \<and> content u = req_message req
     \<and> conversation_id a = conv_id c \<and> role a = ''assistant'' \<and> content a = concat chunks
     \<and> length (get_conversation_messages (store w') (conv_id c))
          = length (get_conversation_messages (store w) (conv_id c)) + 2
     \<and> (history_in_past w (conv_id c) \<and> mono (clock w) \<longrightarrow>
          get_conversation_messages (store w') (conv_id c)
            = get_conversation_messages (store w) (conv_id c) @ [u, a])"
proof -
  let ?cid = "conv_id c"
  obtain u w1 y where u: "create_message w ?cid ''user'' (req_message req) None = Inr (u, w1)"
      "u = \<lparr>msg_id = next_message_id (store w), conversation_id = ?cid, role = ''user'',
             content = req_message req, msg_keywords = None, msg_created_at = clock w (reads w)\<rparr>"
      "messages (store w1) = messages (store w) @ [u]"
      "find (\<lambda>x. conv_id x = ?cid) (conversations (store w1)) = Some y"
      "clock w1 = clock w" "reads w1 = Suc (Suc (reads w))"
    using streaming_user_write [OF assms(1)] by blast
  let ?h = "map (\<lambda>msg. (role msg, content msg)) (get_conversation_messages (store w1) ?cid)"
  let ?w1p = "post w1 (inference_request_body ?h req)"
  have nonempty: "concat chunks \<noteq> []"
    using assms(3,4) by (cases chunks) auto
  have y': "find (\<lambda>x. conv_id x = ?cid) (conversations (store ?w1p)) = Some y"
    using u(4) by (simp add: post_def)
  obtain a w2 where a: "create_message ?w1p ?cid ''assistant'' (concat chunks) None = Inr (a, w2)"
      "a = \<lparr>msg_id = next_message_id (store ?w1p), conversation_id = ?cid, role = ''assistant'',
             content = concat chunks, msg_keywords = None,
             msg_created_at = clock ?w1p (reads ?w1p)\<rparr>"
      "messages (store w2) = messages (store ?w1p) @ [a]"
    using create_message_result [OF y', of "''assistant''" "concat chunks" None] by blast
  have run: "send_message_streaming w sid req uid (chunks, StreamClosed) = (Inr (chunks, None), w2)"
    using u(1) a(1) nonempty
    by (simp add: streaming_unfold [OF assms(1,2)] stream_generator_closed)
  have tbl: "messages (store w2) = messages (store w) @ [u, a]"
    using a(3) u(3) by (simp add: post_def)
  have ids: "conversation_id u = ?cid \<and> role u = ''user'' \<and> content u = req_message req
     \<and> conversation_id a = ?cid \<and> role a = ''assistant'' \<and> content a = concat chunks"
    using u(2) a(2) by simp
  have tu: "msg_created_at u = clock w (reads w)" using u(2) by simp
  have ta: "msg_created_at a = clock w (Suc (Suc (reads w)))"
    using a(2) u(5,6) by (simp add: post_def)
  have s1: "messages (store ?w1p) = messages (store w) @ [u]"
    using u(3) by (simp add: post_def)
  have len: "length (get_conversation_messages (store w2) ?cid)
          = length (get_conversation_messages (store w) ?cid) + 2"
    using listing_length [OF s1, of ?cid] listing_length [OF a(3), of ?cid] ids by simp
  have ord: "get_conversation_messages (store w2) ?cid
            = get_conversation_messages (store w) ?cid @ [u, a]"
    if past: "history_in_past w ?cid" and mono: "mono (clock w)"
  proof -
    have le: "clock w (reads w) \<le> clock w (Suc (Suc (reads w)))"
      using mono by (simp add: monoD)
    have p0: "list_all (\<lambda>x. msg_created_at x \<le> msg_created_at u)
        (get_conversation_messages (store w) ?cid)"
      using past tu by (simp add: history_in_past_def now_def)
    have l1: "get_conversation_messages (store ?w1p) ?cid
        = get_conversation_messages (store w) ?cid @ [u]"
      using listing_append [OF s1 _ p0] ids by simp
    have "list_all (\<lambda>x. msg_created_at x \<le> msg_created_at a)
        (get_conversation_messages (store w) ?cid)"
      using past le ta by (auto simp: history_in_past_def now_def list_all_iff)
    then have p1: "list_all (\<lambda>x. msg_created_at x \<le> msg_created_at a)
        (get_conversation_messages (store ?w1p) ?cid)"
      using l1 le tu ta by simp
    show ?thesis
      using listing_append [OF a(3) _ p1] ids l1 by simp
  qed
  show ?thesis
    using run tbl ids len ord
    by (intro exI [of _ u] exI [of _ a] exI [of _ w2]) simp
qed


text \<open>Facts about the example state.\<close>

lemma example_conversation:
  "get_conversation_by_session_id (store example_world) ''conv-a1''
     = Some \<lparr>conv_id = 1, conv_user_id = 1, session_id = ''conv-a1'', title = None,
        conv_created_at = 5, conv_updated_at = 7\<rparr>"
  by (simp add: example_world_def example_db_def get_conversation_by_session_id_def)

lemma example_listing:
  "map (\<lambda>m. (role m, content m)) (get_conversation_messages (store example_world) 1)
     = [(''system'', SYSTEM_PROMPT)]"
  by (simp add: example_world_def example_db_def get_conversation_messages_def)

lemma example_history_in_past: "history_in_past example_world 1"
  by (simp add: history_in_past_def example_world_def example_db_def example_clock_def
        get_conversation_messages_def now_def)

lemma example_clock_mono: "mono (clock example_world)"
  by (simp add: example_world_def example_clock_def mono_def)

text \<open>
  The theorem at the example: the chunks \<open>Hel\<close> and \<open>lo!\<close> answer \<open>Hi\<close>, and the
  conversation then lists the system prompt, \<open>Hi\<close> and \<open>Hello!\<close>.
\<close>

theorem streaming_turn_persists_pair_witness:
  "\<exists>w'. send_message_streaming example_world ''conv-a1'' hi_request 1
          ([''Hel'', ''lo!''], StreamClosed) = (Inr ([''Hel'', ''lo!''], None), w')
     \<and> map (\<lambda>m. (role m, content m)) (get_conversation_messages (store w') 1)
          = [(''system'', SYSTEM_PROMPT), (''user'', ''Hi''), (''assistant'', ''Hello!'')]"
proof -
  have ne: "[''Hel'', ''lo!''] \<noteq> []" "\<forall>ch\<in>set [''Hel'', ''lo!'']. ch \<noteq> []"
    by simp_all
  obtain u a w' where r:
      "send_message_streaming example_world ''conv-a1'' hi_request 1
          ([''Hel'', ''lo!''], StreamClosed) = (Inr ([''Hel'', ''lo!''], None), w')"
      "role u = ''user''" "content u = req_message hi_request"
      "role a = ''assistant''" "content a = concat [''Hel'', ''lo!'']"
      "history_in_past example_world 1 \<and> mono (clock example_world) \<longrightarrow>
          get_conversation_messages (store w') 1
            = get_conversation_messages (store example_world) 1 @ [u, a]"
    using streaming_turn_persists_pair [OF example_conversation _ ne, of 1 hi_request]
    by auto
  have "get_conversation_messages (store w') 1
            = get_conversation_messages (store example_world) 1 @ [u, a]"
    using r(6) example_history_in_past example_clock_mono by simp
  then have "map (\<lambda>m. (role m, content m)) (get_conversation_messages (store w') 1)
          = [(''system'', SYSTEM_PROMPT), (''user'', ''Hi''), (''assistant'', ''Hello!'')]"
    using r(2-5) example_listing by (simp add: hi_request_def)
  with r(1) show ?thesis by (intro exI [of _ w']) simp
qed

text \<open>
  C6. A streaming turn of the owner whose upstream delivers no text at all (no chunk, or
  only empty ones), whether the stream then closes or raises, stores exactly one new row,
  the user message: no assistant message is written. The listing grows by one, and the new
  entry comes last where no earlier message is stamped later than the clock reads.
\<close>

theorem streaming_zero_bytes_user_only:
  assumes "get_conversation_by_session_id (store w) sid = Some c"
      and "conv_user_id c = uid"
      and "concat chunks = []"
  shows "\<exists>u out w'. send_message_streaming w sid req uid (chunks, fin) = (Inr out, w')
     \<and> messages (store w') = messages (store w) @ [u]
     \<and> conversation_id u = conv_id c \<and> role u = ''user'' \<and> content u = req_message req
     \<and> length (get_conversation_messages (store w') (conv_id c))
          = length (get_conversation_messages (store w) (conv_id c)) + 1
     \<and> (history_in_past w (conv_id c) \<longrightarrow>
          get_conversation_messages (store w') (conv_id c)
            = get_conversation_messages (store w) (conv_id c) @ [u])"
proof -
  let ?cid = "conv_id c"
  obtain u w1 y where u: "create_message w ?cid ''user'' (req_message req) None = Inr (u, w1)"
      "u = \<lparr>msg_id = next_message_id (store w), conversation_id = ?cid, role = ''user'',
             content = req_message req, msg_keywords = None, msg_created_at = clock w (reads w)\<rparr>"
      "messages (store w1) = messages (store w) @ [u]"
    using streaming_user_write [OF assms(1)] by blast
  let ?h = "map (\<lambda>msg. (role msg, content msg)) (get_conversation_messages (store w1) ?cid)"
  let ?w' = "post w1 (inference_request_body ?h req)"
  have run: "\<exists>out. send_message_streaming w sid req uid (chunks, fin) = (Inr out, ?w')"
    using u(1) assms(3)
    by (cases fin)
      (simp_all add: streaming_unfold [OF assms(1,2)] stream_generator_empty
         stream_generator_raised)
  have tbl: "messages (store ?w') = messages (store w) @ [u]"
    using u(3) by (simp add: post_def)
  have ids: "conversation_id u = ?cid \<and> role u = ''user'' \<and> content u = req_message req"
    using u(2) by simp
  have len: "length (get_conversation_messages (store ?w') ?cid)
          = length (get_conversation_messages (store w) ?cid) + 1"
    using listing_length [OF tbl, of ?cid] ids by simp
  have ord: "get_conversation_messages (store ?w') ?cid
            = get_conversation_messages (store w) ?cid @ [u]"
    if past: "history_in_past w ?cid"
  proof -
    have "list_all (\<lambda>x. msg_created_at x \<le> msg_created_at u)
        (get_conversation_messages (store w) ?cid)"
      using past u(2) by (simp add: history_in_past_def now_def)
    then show ?thesis
      using listing_append [OF tbl] ids by simp
  qed
  obtain out where "send_message_streaming w sid req uid (chunks, fin) = (Inr out, ?w')"
    using run by blast
  then show ?thesis
    using tbl ids len ord
    by (intro exI [of _ u] exI [of _ out] exI [of _ ?w']) simp
qed

text \<open>
  The theorem at the example: the stream closes at once, nothing is forwarded, and the
  conversation then lists the system prompt and \<open>Hi\<close>.
\<close>

theorem streaming_zero_bytes_user_only_witness:
  "\<exists>w'. send_message_streaming example_world ''conv-a1'' hi_request 1 ([], StreamClosed)
          = (Inr ([], None), w')
     \<and> map (\<lambda>m. (role m, content m)) (get_conversation_messages (store w') 1)
          = [(''system'', SYSTEM_PROMPT), (''user'', ''Hi'')]"
proof -
  have z: "concat ([] :: string list) = []" by simp
  obtain u out w' where r:
      "send_message_streaming example_world ''conv-a1'' hi_request 1 ([], StreamClosed)
         = (Inr out, w')"
      "role u = ''user''" "content u = req_message hi_request"
      "history_in_past example_world 1 \<longrightarrow>
          get_conversation_messages (store w') 1
            = get_conversation_messages (store example_world) 1 @ [u]"
    using streaming_zero_bytes_user_only [OF example_conversation _ z, of 1 hi_request StreamClosed]
    by auto
  have out: "out = ([], None)"
    using r(1) example_conversation
    by (simp add: send_message_streaming_def stream_generator_def Let_def
          split: sum.splits prod.splits)
  have "get_conversation_messages (store w') 1
            = get_conversation_messages (store example_world) 1 @ [u]"
    using r(4) example_history_in_past by simp
  then have "map (\<lambda>m. (role m, content m)) (get_conversation_messages (store w') 1)
          = [(''system'', SYSTEM_PROMPT), (''user'', ''Hi'')]"
    using r(2,3) example_listing by (simp add: hi_request_def)
  with r(1) out show ?thesis by (intro exI [of _ w']) simp
qed

text \<open>
  C7. A streaming turn of the owner whose stream raises, after any number of chunks,
  forwards the chunks received so far followed by the error marker
  \<open>\n[ERROR: ...]\<close> as the last element of the response stream, and stores exactly one
  new row, the user message: no partial assistant message is written.
\<close>

theorem streaming_failure_marker_no_assistant:
  assumes "get_conversation_by_session_id (store w) sid = Some c"
      and "conv_user_id c = uid"
  shows "\<exists>u w'. send_message_streaming w sid req uid (chunks, StreamRaised e)
         = (Inr (chunks @ [CHR 0x0A # ''[ERROR: '' @ e @ '']''], None), w')
     \<and> messages (store w') = messages (store w) @ [u]
     \<and> conversation_id u = conv_id c \<and> role u = ''user'' \<and> content u = req_message req"
proof -
  let ?cid = "conv_id c"
  obtain u w1 y where u: "create_message w ?cid ''user'' (req_message req) None = Inr (u, w1)"
      "u = \<lparr>msg_id = next_message_id (store w), conversation_id = ?cid, role = ''user'',
             content = req_message req, msg_keywords = None, msg_created_at = clock w (reads w)\<rparr>"
      "messages (store w1) = messages (store w) @ [u]"
    using streaming_user_write [OF assms(1)] by blast
  let ?h = "map (\<lambda>msg. (role msg, content msg)) (get_conversation_messages (store w1) ?cid)"
  let ?w' = "post w1 (inference_request_body ?h req)"
  have "send_message_streaming w sid req uid (chunks, StreamRaised e)
         = (Inr (chunks @ [CHR 0x0A # ''[ERROR: '' @ e @ '']''], None), ?w')"
    using u(1) by (simp add: streaming_unfold [OF assms] stream_generator_raised)
  moreover have "messages (store ?w') = messages (store w) @ [u]"
    using u(3) by (simp add: post_def)
  moreover have "conversation_id u = ?cid \<and> role u = ''user'' \<and> content u = req_message req"
    using u(2) by simp
  ultimately show ?thesis
    by (intro exI [of _ u] exI [of _ ?w']) simp
qed

text \<open>
  The theorem at the example: the stream raises \<open>boom\<close> after the chunk \<open>Hel\<close>.
\<close>

theorem streaming_failure_marker_no_assistant_witness:
  "\<exists>w'. send_message_streaming example_world ''conv-a1'' hi_request 1
          ([''Hel''], StreamRaised ''boom'')
          = (Inr ([''Hel'', CHR 0x0A # ''[ERROR: boom]''], None), w')
     \<and> map (\<lambda>m. (role m, content m)) (messages (store w'))
          = [(''system'', SYSTEM_PROMPT), (''user'', ''Hi'')]"
proof -
  obtain u w' where r:
      "send_message_streaming example_world ''conv-a1'' hi_request 1
          ([''Hel''], StreamRaised ''boom'')
         = (Inr ([''Hel''] @ [CHR 0x0A # ''[ERROR: '' @ ''boom'' @ '']''], None), w')"
      "messages (store w') = messages (store example_world) @ [u]"
      "role u = ''user''" "content u = req_message hi_request"
    using streaming_failure_marker_no_assistant [OF example_conversation, of 1 hi_request
        "[''Hel'']" "''boom''"]
    by auto
  have "map (\<lambda>m. (role m, content m)) (messages (store w'))
          = [(''system'', SYSTEM_PROMPT), (''user'', ''Hi'')]"
    using r(2-4) by (simp add: example_world_def example_db_def hi_request_def)
  with r(1) show ?thesis by (intro exI [of _ w']) simp
qed

section \<open>The buffered turn\<close>

text \<open>No path through \<open>send_message\<close> writes to the store or commits, and none returns
  a response: the only call that would write is the one to the missing
  \<open>crud.create_message_pair\<close>.\<close>

lemma send_message_never_writes:
  "store (snd (send_message w sid req uid outcome)) = store w
   \<and> committed (snd (send_message w sid req uid outcome)) = committed w"
  by (simp add: send_message_def Let_def post_def
        split: option.splits inference_outcome.splits body.splits)

lemma send_message_never_returns:
  "\<exists>e. fst (send_message w sid req uid outcome) = Inl e"
  by (simp add: send_message_def Let_def
        split: option.splits inference_outcome.splits body.splits)

lemma send_message_guard:
  "get_conversation_by_session_id (store w) sid = None \<Longrightarrow>
     send_message w sid req uid outcome = (Inl (HTTPException 404 ''Conversation not found''), w)"
  "get_conversation_by_session_id (store w) sid = Some c \<Longrightarrow> conv_user_id c \<noteq> uid \<Longrightarrow>
     send_message w sid req uid outcome = (Inl (HTTPException 403 ''Access denied''), w)"
  by (simp_all add: send_message_def)

lemma send_message_success_path:
  "get_conversation_by_session_id (store w) sid = Some c \<Longrightarrow> conv_user_id c = uid \<Longrightarrow>
     fst (send_message w sid req uid (Response 200 (Json r usage)))
       = Inl (AttributeError ''crud'' ''create_message_pair'')"
  by (simp add: send_message_def Let_def)

lemma send_message_failure_status:
  assumes "inference_fails outcome"
  shows "\<exists>code detail. fst (send_message w sid req uid outcome) = Inl (HTTPException code detail)"
  using assms
  by (cases outcome rule: inference_fails.cases)
    (simp_all add: send_message_def Let_def split: option.splits)

text \<open>
  C3. A buffered turn whose inference call fails (a timeout, a connection error, any other
  exception, a status other than 200, or an answer that cannot be decoded) ends in an \<open>HTTPException\<close> and writes
  nothing: the store and the committed history are what they were, and so is the message
  list of every conversation.
\<close>

theorem send_message_failure_writes_nothing:
  assumes "inference_fails outcome"
  shows "(\<exists>code detail. fst (send_message w sid req uid outcome) = Inl (HTTPException code detail))
     \<and> store (snd (send_message w sid req uid outcome)) = store w
     \<and> committed (snd (send_message w sid req uid outcome)) = committed w
     \<and> get_conversation_messages (store (snd (send_message w sid req uid outcome))) cid
          = get_conversation_messages (store w) cid"
  using send_message_failure_status [OF assms] send_message_never_writes [of w sid req uid outcome]
  by simp

text \<open>The theorem at the example: the owner's turn on \<open>conv-a1\<close> times out with status
  504 and the conversation still lists its system prompt only.\<close>

lemma example_timeout:
  "fst (send_message example_world ''conv-a1'' hi_request 1 TimeoutException)
     = Inl (HTTPException 504 ''Inference service timeout'')"
  by (simp add: send_message_def example_conversation Let_def)

theorem send_message_failure_writes_nothing_witness:
  "inference_fails TimeoutException
   \<and> fst (send_message example_world ''conv-a1'' hi_request 1 TimeoutException)
        = Inl (HTTPException 504 ''Inference service timeout'')
   \<and> store (snd (send_message example_world ''conv-a1'' hi_request 1 TimeoutException))
        = example_db
   \<and> map (\<lambda>m. (role m, content m)) (get_conversation_messages
        (store (snd (send_message example_world ''conv-a1'' hi_request 1 TimeoutException))) 1)
        = [(''system'', SYSTEM_PROMPT)]"
proof -
  have f: "inference_fails TimeoutException" by simp
  have "store (snd (send_message example_world ''conv-a1'' hi_request 1 TimeoutException))
        = store example_world"
    and "get_conversation_messages
        (store (snd (send_message example_world ''conv-a1'' hi_request 1 TimeoutException))) 1
        = get_conversation_messages (store example_world) 1"
    using send_message_failure_writes_nothing [OF f, of example_world "''conv-a1''" hi_request 1 1]
    by simp_all
  then show ?thesis
    using f example_timeout example_listing by (simp add: example_world_def)
qed

text \<open>
  C1. The claim says a successful buffered turn appends one user and one assistant message
  and returns both. At the example the service answers 200 with \<open>Hello!\<close>; the turn ends
  in the \<open>AttributeError\<close> of \<open>crud.create_message_pair\<close>, the message table is unchanged
  and nothing is committed.
\<close>

theorem send_message_success_raises_attribute_error:
  "fst (send_message example_world ''conv-a1'' hi_request 1 (Response 200 (Json ''Hello!'' [])))
     = Inl (AttributeError ''crud'' ''create_message_pair'')
   \<and> messages (store (snd (send_message example_world ''conv-a1'' hi_request 1
        (Response 200 (Json ''Hello!'' []))))) = messages example_db
   \<and> committed (snd (send_message example_world ''conv-a1'' hi_request 1
        (Response 200 (Json ''Hello!'' [])))) = [example_db]"
proof -
  have "fst (send_message example_world ''conv-a1'' hi_request 1
      (Response 200 (Json ''Hello!'' []))) = Inl (AttributeError ''crud'' ''create_message_pair'')"
    by (simp add: send_message_def example_conversation Let_def)
  moreover have "store example_world = example_db" and "committed example_world = [example_db]"
    by (simp_all add: example_world_def)
  ultimately show ?thesis
    by (simp add: send_message_never_writes)
qed

section \<open>Ownership\<close>

text \<open>
  C2. The claim says a stranger's request is answered as if the conversation did not
  exist. User 2 sends a buffered chat turn to user 1's \<open>conv-a1\<close> and is answered 403
  \<open>Access denied\<close>; the same turn on a store without that conversation is answered 404
  \<open>Conversation not found\<close>. The two outcomes differ, so the answer tells user 2 that
  the handle exists.
\<close>

theorem send_message_forbidden_differs_from_not_found:
  "fst (send_message example_world ''conv-a1'' hi_request 2 (Response 200 (Json ''Hello!'' [])))
     = Inl (HTTPException 403 ''Access denied'')
   \<and> fst (send_message empty_world ''conv-a1'' hi_request 2 (Response 200 (Json ''Hello!'' [])))
     = Inl (HTTPException 404 ''Conversation not found'')"
proof -
  have "get_conversation_by_session_id (store empty_world) ''conv-a1'' = None"
    by (simp add: get_conversation_by_session_id_def empty_world_def empty_db_def)
  then show ?thesis
    by (simp add: send_message_def example_conversation)
qed

text \<open>The other four routes answer a stranger as they answer for a handle that does not
  exist, and leave the world as it is.\<close>

lemma streaming_denied:
  "denied (get_conversation_by_session_id (store w) sid) uid \<Longrightarrow>
   send_message_streaming w sid req uid up = (Inl (HTTPException 404 ''Conversation not found''), w)"
  by (cases "get_conversation_by_session_id (store w) sid")
    (simp_all add: send_message_streaming_def)

lemma get_conversation_denied:
  "denied (get_conversation_by_session_id db sid) uid \<Longrightarrow>
   get_conversation db sid uid = Inl (HTTPException 404 ''Conversation not found'')"
  by (cases "get_conversation_by_session_id db sid") (simp_all add: get_conversation_def)

lemma get_messages_denied:
  "denied (get_conversation_by_session_id db sid) uid \<Longrightarrow>
   get_messages db sid uid = Inl (HTTPException 404 ''Conversation not found'')"
  by (cases "get_conversation_by_session_id db sid") (simp_all add: get_messages_def)

lemma delete_conversation_denied:
  "denied (get_conversation_by_session_id (store w) sid) uid \<Longrightarrow>
   delete_conversation_route w sid uid = (Inl (HTTPException 404 ''Conversation not found''), w)"
  by (cases "get_conversation_by_session_id (store w) sid")
    (simp_all add: delete_conversation_route_def)

section \<open>Creating a conversation\<close>

lemma update_first_append_fresh:
  "find P xs = None \<Longrightarrow> P x \<Longrightarrow> update_first P f (xs @ [x]) = xs @ [f x]"
  by (induction xs) (auto split: if_splits)

lemma find_append_fresh:
  "find P xs = None \<Longrightarrow> P x \<Longrightarrow> find P (xs @ [x]) = Some x"
  by (induction xs) (auto split: if_splits)

lemma create_conversation_result:
  assumes "get_conversation_by_session_id (store w) (''conv-'' @ uuid_hex) = None"
  shows "\<exists>c w1. create_conversation w uid ttl uuid_hex = Inr (c, w1)
      \<and> c = \<lparr>conv_id = next_conversation_id (store w), conv_user_id = uid,
             session_id = ''conv-'' @ uuid_hex, title = ttl,
             conv_created_at = clock w (reads w), conv_updated_at = clock w (Suc (reads w))\<rparr>
      \<and> conversations (store w1) = conversations (store w) @ [c]
      \<and> messages (store w1) = messages (store w)
      \<and> committed w1 = committed w @ [store w1]"
  using assms
  by (simp add: create_conversation_def get_conversation_by_session_id_def Let_def commit_def
        tick_def now_def)

lemma listing_empty:
  "get_conversation_messages db cid = [] \<Longrightarrow> filter (\<lambda>m. conversation_id m = cid) (messages db) = []"
  by (metis get_conversation_messages_def length_sort length_0_conv)

text \<open>
  C4, as amended. Where the new handle is not in use and the next conversation id is
  unused (no conversation and no message carries it), the create route returns a response
  with \<open>message_count\<close> 1, and when it has returned the conversation holds exactly one
  message, the system-role persona prompt, which is what its owner reads. The route
  commits three times: the conversation row is committed first, on its own, and on that
  first snapshot the owner's message listing of the new conversation is empty; the system
  prompt is there from the second snapshot on.
\<close>

theorem create_conversation_route_two_commits:
  assumes "get_conversation_by_session_id (store w) (''conv-'' @ uuid_hex) = None"
    and "find (\<lambda>x. conv_id x = next_conversation_id (store w)) (conversations (store w)) = None"
    and "get_conversation_messages (store w) (next_conversation_id (store w)) = []"
  shows "\<exists>resp w' s1 s2. create_conversation_route w ttl uid uuid_hex = (Inr resp, w')
     \<and> resp_session_id resp = ''conv-'' @ uuid_hex \<and> resp_message_count resp = 1
     \<and> map (\<lambda>m. (role m, content m)) (get_conversation_messages (store w') (resp_id resp))
          = [(''system'', SYSTEM_PROMPT)]
     \<and> map_sum id (map (\<lambda>m. (mr_role m, mr_content m)))
          (get_messages (store w') (''conv-'' @ uuid_hex) uid) = Inr [(''system'', SYSTEM_PROMPT)]
     \<and> committed w' = committed w @ [s1, s2, store w']
     \<and> get_messages s1 (''conv-'' @ uuid_hex) uid = Inr []
     \<and> map_sum id (map (\<lambda>m. (mr_role m, mr_content m)))
          (get_messages s2 (''conv-'' @ uuid_hex) uid) = Inr [(''system'', SYSTEM_PROMPT)]"
proof -
  let ?sid = "''conv-'' @ uuid_hex"
  let ?cid = "next_conversation_id (store w)"
  obtain c w1 where c: "create_conversation w uid ttl uuid_hex = Inr (c, w1)"
      "c = \<lparr>conv_id = ?cid, conv_user_id = uid, session_id = ?sid, title = ttl,
             conv_created_at = clock w (reads w), conv_updated_at = clock w (Suc (reads w))\<rparr>"
      "conversations (store w1) = conversations (store w) @ [c]"
      "messages (store w1) = messages (store w)"
      "committed w1 = committed w @ [store w1]"
    using create_conversation_result [OF assms(1), of uid ttl] by blast
  have cid: "conv_id c = ?cid" and own: "conv_user_id c = uid" and sid: "session_id c = ?sid"
    using c(2) by simp_all
  have f1: "find (\<lambda>x. conv_id x = ?cid) (conversations (store w1)) = Some c"
    using assms(2) c(3) cid by (simp add: find_append_fresh)
  obtain m w2 snap where m: "create_message w1 ?cid ''system'' SYSTEM_PROMPT None = Inr (m, w2)"
      "m = \<lparr>msg_id = next_message_id (store w1), conversation_id = ?cid, role = ''system'',
             content = SYSTEM_PROMPT, msg_keywords = None, msg_created_at = clock w1 (reads w1)\<rparr>"
      "committed w2 = committed w1 @ [snap, store w2]"
      "messages snap = messages (store w1) @ [m]"
      "conversations snap = conversations (store w1)"
      "messages (store w2) = messages (store w1) @ [m]"
      "conversations (store w2) = update_first (\<lambda>x. conv_id x = ?cid)
            (\<lambda>x. x\<lparr>conv_updated_at := clock w1 (Suc (reads w1))\<rparr>) (conversations (store w1))"
    using create_message_result [OF f1, of "''system''" SYSTEM_PROMPT None] by blast
  let ?c' = "c\<lparr>conv_updated_at := clock w1 (Suc (reads w1))\<rparr>"
  have convs2: "conversations (store w2) = conversations (store w) @ [?c']"
    using m(7) c(3) assms(2) cid by (simp add: update_first_append_fresh)
  have none: "filter (\<lambda>x. conversation_id x = ?cid) (messages (store w)) = []"
    using assms(3) by (rule listing_empty)
  have mid: "conversation_id m = ?cid" "role m = ''system''" "content m = SYSTEM_PROMPT"
    using m(2) by simp_all
  have l1: "get_conversation_messages (store w1) ?cid = []"
    using none c(4) by (simp add: get_conversation_messages_def)
  have ls: "get_conversation_messages snap ?cid = [m]"
    using none c(4) m(4) mid by (simp add: get_conversation_messages_def)
  have l2: "get_conversation_messages (store w2) ?cid = [m]"
    using none c(4) m(6) mid by (simp add: get_conversation_messages_def)
  have old: "find (\<lambda>x. session_id x = ?sid) (conversations (store w)) = None"
    using assms(1) by (simp add: get_conversation_by_session_id_def)
  have g1: "get_conversation_by_session_id (store w1) ?sid = Some c"
    using old c(3) sid by (simp add: get_conversation_by_session_id_def find_append_fresh)
  have gs: "get_conversation_by_session_id snap ?sid = Some c"
    using old c(3) m(5) sid by (simp add: get_conversation_by_session_id_def find_append_fresh)
  have g2: "get_conversation_by_session_id (store w2) ?sid = Some ?c'"
    using old convs2 sid by (simp add: get_conversation_by_session_id_def find_append_fresh)
  have r2: "refreshed (store w2) c = ?c'"
    using assms(2) convs2 cid by (simp add: refreshed_def find_append_fresh)
  let ?resp = "conversation_response_of ?c' 1"
  have run: "create_conversation_route w ttl uid uuid_hex = (Inr ?resp, w2)"
    using c(1) m(1) cid r2 by (simp add: create_conversation_route_def)
  have resp: "resp_session_id ?resp = ?sid" "resp_message_count ?resp = 1" "resp_id ?resp = ?cid"
    using sid cid by (simp_all add: conversation_response_of_def)
  have final: "map (\<lambda>m. (role m, content m)) (get_conversation_messages (store w2) (resp_id ?resp))
          = [(''system'', SYSTEM_PROMPT)]"
    using l2 mid resp(3) by simp
  have read2: "map_sum id (map (\<lambda>m. (mr_role m, mr_content m)))
          (get_messages (store w2) ?sid uid) = Inr [(''system'', SYSTEM_PROMPT)]"
    using g2 l2 mid own cid by (simp add: get_messages_def message_response_of_def)
  have hist: "committed w2 = committed w @ [store w1, snap, store w2]"
    using m(3) c(5) by simp
  have read1: "get_messages (store w1) ?sid uid = Inr []"
    using g1 l1 own cid by (simp add: get_messages_def)
  have reads: "map_sum id (map (\<lambda>m. (mr_role m, mr_content m)))
          (get_messages snap ?sid uid) = Inr [(''system'', SYSTEM_PROMPT)]"
    using gs ls mid own cid by (simp add: get_messages_def message_response_of_def)
  show ?thesis
    using run resp(1,2) final read2 hist read1 reads
    by (intro exI [of _ ?resp] exI [of _ w2] exI [of _ "store w1"] exI [of _ snap]) simp
qed


text \<open>The theorem at the example: user 1 creates \<open>conv-abc\<close> in an empty store.\<close>

theorem create_conversation_route_two_commits_witness:
  "\<exists>resp w' s1 s2. create_conversation_route empty_world None 1 ''abc'' = (Inr resp, w')
     \<and> resp_session_id resp = ''conv-abc'' \<and> resp_message_count resp = 1
     \<and> map_sum id (map (\<lambda>m. (mr_role m, mr_content m)))
          (get_messages (store w') ''conv-abc'' 1) = Inr [(''system'', SYSTEM_PROMPT)]
     \<and> committed w' = [empty_db, s1, s2, store w']
     \<and> get_messages s1 ''conv-abc'' 1 = Inr []"
proof -
  have h1: "get_conversation_by_session_id (store empty_world) (''conv-'' @ ''abc'') = None"
    by (simp add: get_conversation_by_session_id_def empty_world_def empty_db_def)
  have h2: "find (\<lambda>x. conv_id x = next_conversation_id (store empty_world))
      (conversations (store empty_world)) = None"
    by (simp add: empty_world_def empty_db_def)
  have h3: "get_conversation_messages (store empty_world)
      (next_conversation_id (store empty_world)) = []"
    by (simp add: get_conversation_messages_def empty_world_def empty_db_def)
  obtain resp w' s1 s2 where r:
      "create_conversation_route empty_world None 1 ''abc'' = (Inr resp, w')"
      "resp_session_id resp = ''conv-'' @ ''abc''" "resp_message_count resp = 1"
      "map_sum id (map (\<lambda>m. (mr_role m, mr_content m)))
          (get_messages (store w') (''conv-'' @ ''abc'') 1) = Inr [(''system'', SYSTEM_PROMPT)]"
      "committed w' = committed empty_world @ [s1, s2, store w']"
      "get_messages s1 (''conv-'' @ ''abc'') 1 = Inr []"
    using create_conversation_route_two_commits [OF h1 h2 h3, of None 1] by blast
  have "committed w' = [empty_db, s1, s2, store w']"
    using r(5) by (simp add: empty_world_def)
  then show ?thesis
    using r(1-4,6)
    by (intro exI [of _ resp] exI [of _ w'] exI [of _ s1] exI [of _ s2]) simp
qed

text \<open>
  The claim as first stated fails at the example. The route completes with
  \<open>message_count\<close> 1, yet on the first snapshot it commits the owner's
  \<open>GET /conversations/conv-abc/messages\<close> answers with the empty list and
  \<open>GET /conversations/conv-abc\<close> reports \<open>message_count\<close> 0: a reader sees the
  conversation before its system prompt.
\<close>

theorem create_conversation_seen_without_messages_counterexample:
  "map_sum id resp_message_count
     (fst (create_conversation_route empty_world None 1 ''abc'')) = Inr 1
   \<and> get_messages (committed (snd (create_conversation_route empty_world None 1 ''abc'')) ! 1)
       ''conv-abc'' 1 = Inr []
   \<and> map_sum id resp_message_count
       (get_conversation (committed (snd (create_conversation_route empty_world None 1 ''abc'')) ! 1)
          ''conv-abc'' 1) = Inr 0"
  by (simp add: create_conversation_route_def create_conversation_def create_message_def
        update_conversation_timestamp_def Let_def commit_def tick_def now_def
        empty_world_def empty_db_def example_clock_def refreshed_def conversation_response_of_def
        get_messages_def get_conversation_def get_conversation_by_session_id_def
        get_conversation_messages_def)

section \<open>Check-ins and the streak\<close>

lemma create_goal_checkin_completed:
  assumes "get_goal_by_id (store w) gid = Some g"
  shows "\<exists>ci w'. create_goal_checkin w gid pn True = Inr (ci, w')
      \<and> checkin_goal_id ci = gid \<and> completed ci
      \<and> goal_check_ins (store w') = goal_check_ins (store w) @ [ci]
      \<and> get_goal_by_id (store w') gid
           = Some (g\<lparr>streak_count := streak_count g + 1,
                      goal_updated_at := clock w (Suc (reads w))\<rparr>)"
proof -
  have gid: "goal_id g = gid"
    using assms unfolding get_goal_by_id_def by (rule find_holds)
  have "find (\<lambda>x. goal_id x = gid)
      (update_first (\<lambda>x. goal_id x = gid)
         (\<lambda>x. x\<lparr>streak_count := streak_count x + 1, goal_updated_at := clock w (Suc (reads w))\<rparr>)
         (goals (store w)))
      = Some (g\<lparr>streak_count := streak_count g + 1, goal_updated_at := clock w (Suc (reads w))\<rparr>)"
    using assms gid by (simp add: get_goal_by_id_def find_update_first)
  then show ?thesis
    using assms
    by (simp add: create_goal_checkin_def get_goal_by_id_def Let_def commit_def tick_def now_def)
qed

lemma create_goal_checkin_not_completed:
  assumes "get_goal_by_id (store w) gid = Some g"
  shows "\<exists>ci w'. create_goal_checkin w gid pn False = Inr (ci, w')
      \<and> checkin_goal_id ci = gid \<and> \<not> completed ci
      \<and> goal_check_ins (store w') = goal_check_ins (store w) @ [ci]
      \<and> goals (store w') = goals (store w)"
  using assms
  by (simp add: create_goal_checkin_def get_goal_by_id_def Let_def commit_def tick_def now_def)

lemma create_checkin_owner:
  assumes "get_goal_by_id (store w) gid = Some g" and "goal_user_id g = uid"
    and "create_goal_checkin w gid pn b = Inr (ci, w')"
  shows "create_checkin w gid pn b uid = (Inr ci, w')"
  using assms by (simp add: create_checkin_def)

text \<open>
  C9. On a goal that exists, \<open>create_goal_checkin\<close> with \<open>completed = True\<close> creates a
  completed check-in and leaves the goal's \<open>streak_count\<close> exactly one greater than
  before; with \<open>completed = False\<close> it creates a check-in that is not completed and
  leaves the goals table, and with it \<open>streak_count\<close>, unchanged. The check-in route,
  called by the goal's owner, does exactly this and returns the check-in.
\<close>

theorem completed_checkin_adds_one_to_streak:
  assumes "get_goal_by_id (store w) gid = Some g"
  shows "(\<exists>ci w'. create_goal_checkin w gid pn True = Inr (ci, w')
            \<and> completed ci
            \<and> map_option streak_count (get_goal_by_id (store w') gid) = Some (streak_count g + 1)
            \<and> (goal_user_id g = uid \<longrightarrow> create_checkin w gid pn True uid = (Inr ci, w')))
       \<and> (\<exists>ci w'. create_goal_checkin w gid pn False = Inr (ci, w')
            \<and> \<not> completed ci
            \<and> goals (store w') = goals (store w)
            \<and> map_option streak_count (get_goal_by_id (store w') gid) = Some (streak_count g)
            \<and> (goal_user_id g = uid \<longrightarrow> create_checkin w gid pn False uid = (Inr ci, w')))"
proof -
  obtain ci w' where t: "create_goal_checkin w gid pn True = Inr (ci, w')" "completed ci"
      "get_goal_by_id (store w') gid
           = Some (g\<lparr>streak_count := streak_count g + 1,
                      goal_updated_at := clock w (Suc (reads w))\<rparr>)"
    using create_goal_checkin_completed [OF assms, of pn] by blast
  obtain cj v' where f: "create_goal_checkin w gid pn False = Inr (cj, v')" "\<not> completed cj"
      "goals (store v') = goals (store w)"
    using create_goal_checkin_not_completed [OF assms, of pn] by blast
  have rt: "goal_user_id g = uid \<longrightarrow> create_checkin w gid pn True uid = (Inr ci, w')"
    using assms t(1) by (simp add: create_checkin_owner)
  have st: "map_option streak_count (get_goal_by_id (store w') gid) = Some (streak_count g + 1)"
    using t(3) by simp
  have rf: "goal_user_id g = uid \<longrightarrow> create_checkin w gid pn False uid = (Inr cj, v')"
    using assms f(1) by (simp add: create_checkin_owner)
  have sf: "map_option streak_count (get_goal_by_id (store v') gid) = Some (streak_count g)"
    using f(3) assms by (simp add: get_goal_by_id_def)
  have "\<exists>ci w'. create_goal_checkin w gid pn True = Inr (ci, w')
            \<and> completed ci
            \<and> map_option streak_count (get_goal_by_id (store w') gid) = Some (streak_count g + 1)
            \<and> (goal_user_id g = uid \<longrightarrow> create_checkin w gid pn True uid = (Inr ci, w'))"
    using t(1,2) st rt by (intro exI [of _ ci] exI [of _ w']) simp
  moreover have "\<exists>ci w'. create_goal_checkin w gid pn False = Inr (ci, w')
            \<and> \<not> completed ci
            \<and> goals (store w') = goals (store w)
            \<and> map_option streak_count (get_goal_by_id (store w') gid) = Some (streak_count g)
            \<and> (goal_user_id g = uid \<longrightarrow> create_checkin w gid pn False uid = (Inr ci, w'))"
    using f sf rf by (intro exI [of _ cj] exI [of _ v']) simp
  ultimately show ?thesis by simp
qed

text \<open>The theorem at the example: the goal's streak of 2 becomes 3 with a completed
  check-in and stays 2 with one that is not completed.\<close>

lemma example_goal:
  "get_goal_by_id (store example_world) 1
     = Some \<lparr>goal_id = 1, goal_user_id = 1, goal_title = ''Run'', description = None,
        target_date = None, status = ''active'', streak_count = 2,
        goal_created_at = 8, goal_updated_at = 8\<rparr>"
  by (simp add: get_goal_by_id_def example_world_def example_db_def)

theorem completed_checkin_adds_one_to_streak_witness:
  "map_option streak_count (get_goal_by_id (store example_world) 1) = Some 2
   \<and> (\<exists>ci w'. create_checkin example_world 1 None True 1 = (Inr ci, w')
         \<and> create_goal_checkin example_world 1 None True = Inr (ci, w')
         \<and> map_option streak_count (get_goal_by_id (store w') 1) = Some 3)
   \<and> (\<exists>ci w'. create_checkin example_world 1 None False 1 = (Inr ci, w')
         \<and> create_goal_checkin example_world 1 None False = Inr (ci, w')
         \<and> map_option streak_count (get_goal_by_id (store w') 1) = Some 2)"
proof -
  show ?thesis
    using completed_checkin_adds_one_to_streak [OF example_goal, of None 1] example_goal
    by auto
qed

text \<open>
  C10. \<open>update_checkin\<close> and \<open>delete_checkin\<close>, and the routes that call them, leave the
  goals table as it is, whatever their arguments and whatever they answer: the streak of
  the parent goal after the call is the streak before it, also when the update turns
  \<open>completed\<close> from false to true or back.
\<close>

theorem checkin_update_and_delete_keep_streak:
  "goals (store (snd (update_checkin w cid pn flag))) = goals (store w)
   \<and> goals (store (snd (delete_checkin w cid))) = goals (store w)
   \<and> goals (store (snd (update_checkin_route w gid cid pn flag uid))) = goals (store w)
   \<and> goals (store (snd (delete_checkin_route w gid cid uid))) = goals (store w)
   \<and> map_option streak_count (get_goal_by_id (store (snd (update_checkin_route w gid cid pn flag uid))) gid)
       = map_option streak_count (get_goal_by_id (store w) gid)
   \<and> map_option streak_count (get_goal_by_id (store (snd (delete_checkin_route w gid cid uid))) gid)
       = map_option streak_count (get_goal_by_id (store w) gid)"
proof -
  have u: "goals (store (snd (update_checkin w cid pn flag))) = goals (store w)"
    by (simp add: update_checkin_def Let_def commit_def split: option.splits)
  have d: "goals (store (snd (delete_checkin w cid))) = goals (store w)"
    by (simp add: delete_checkin_def commit_def split: option.splits)
  have ur: "goals (store (snd (update_checkin_route w gid cid pn flag uid))) = goals (store w)"
    using u by (auto simp: update_checkin_route_def split: option.splits prod.splits)
  have dr: "goals (store (snd (delete_checkin_route w gid cid uid))) = goals (store w)"
    using d by (auto simp: delete_checkin_route_def split: option.splits prod.splits bool.splits)
  show ?thesis
    using u d ur dr by (simp add: get_goal_by_id_def)
qed

text \<open>The theorem at the example: the check-in goes from not completed to completed, or is
  deleted, and the goal's streak stays 2.\<close>

theorem checkin_update_and_delete_keep_streak_witness:
  "map_option completed (get_checkin_by_id (store example_world) 1) = Some False
   \<and> map_option completed (get_checkin_by_id
        (store (snd (update_checkin_route example_world 1 1 None (Some True) 1))) 1) = Some True
   \<and> map_option streak_count (get_goal_by_id
        (store (snd (update_checkin_route example_world 1 1 None (Some True) 1))) 1) = Some 2
   \<and> get_checkin_by_id (store (snd (delete_checkin_route example_world 1 1 1))) 1 = None
   \<and> map_option streak_count (get_goal_by_id
        (store (snd (delete_checkin_route example_world 1 1 1))) 1) = Some 2"
proof -
  have g: "map_option streak_count (get_goal_by_id (store example_world) 1) = Some 2"
    using example_goal by simp
  have u: "map_option streak_count (get_goal_by_id
        (store (snd (update_checkin_route example_world 1 1 None (Some True) 1))) 1) = Some 2"
    and d: "map_option streak_count (get_goal_by_id
        (store (snd (delete_checkin_route example_world 1 1 1))) 1) = Some 2"
    using checkin_update_and_delete_keep_streak [of example_world 1 None "Some True" 1 1] g
    by simp_all
  have c0: "get_checkin_by_id (store example_world) 1
      = Some \<lparr>checkin_id = 1, checkin_goal_id = 1, check_in_date = 9,
        progress_note = None, completed = False\<rparr>"
    by (simp add: get_checkin_by_id_def example_world_def example_db_def)
  have c1: "map_option completed (get_checkin_by_id
        (store (snd (update_checkin_route example_world 1 1 None (Some True) 1))) 1) = Some True"
    using example_goal c0
    by (simp add: update_checkin_route_def update_checkin_def Let_def commit_def)
      (simp add: get_checkin_by_id_def example_world_def example_db_def)
  have c2: "get_checkin_by_id (store (snd (delete_checkin_route example_world 1 1 1))) 1 = None"
    using example_goal c0
    by (simp add: delete_checkin_route_def delete_checkin_def commit_def)
      (simp add: get_checkin_by_id_def example_world_def example_db_def)
  show ?thesis using c0 c1 c2 u d by simp
qed

end
